theory Spec2Isabelle
  imports Main
begin

chapter \<open>The connection lifecycle controller of the SOCKS VPN menu\<close>

section \<open>Data model (main.go, lines 19-44)\<close>

text \<open>
  The three configuration structs of \<^verbatim>\<open>main.go\<close>. Go's \<^verbatim>\<open>int\<close> fields are
  modelled as \<^typ>\<open>int\<close>: the program only compares them with zero and prints them,
  it never does arithmetic on them.
\<close>

record ServerOptions =
  ServerAliveInterval :: int
  ServerAliveCountMax :: int

record Command =
  Name :: string
  Description :: string
  Server :: string

record Config =
  AutoSSHPath :: string
  LocalPort :: int
  Interface :: string
  ServerOptions :: ServerOptions
  Commands :: "Command list"

text \<open>
  \<^verbatim>\<open>VPNApp.config\<close> is a pointer and may be nil; the menu item held by the struct
  belongs to the presentation layer and is left out.
\<close>

record VPNApp =
  config :: "Config option"

section \<open>Formatting and string helpers\<close>

text \<open>\<^verbatim>\<open>fmt.Sprintf("%d", n)\<close>: decimal digits, with a minus sign for negative numbers.\<close>

definition digit_char :: "nat \<Rightarrow> char" where
  "digit_char d = ''0123456789'' ! (d mod 10)"

fun nat_dec :: "nat \<Rightarrow> string" where
  "nat_dec n = (if n < 10 then [digit_char n] else nat_dec (n div 10) @ [digit_char (n mod 10)])"

declare nat_dec.simps [simp del]

definition fmt_d :: "int \<Rightarrow> string" where
  "fmt_d i = (if i < 0 then ''-'' @ nat_dec (nat (- i)) else nat_dec (nat i))"

text \<open>
  \<^verbatim>\<open>bytes.TrimSpace\<close> / \<^verbatim>\<open>strings.TrimSpace\<close>: strings are byte lists holding
  UTF-8, and the white space that is trimmed is the six ASCII blanks and the encodings of
  the other characters of \<^verbatim>\<open>unicode.IsSpace\<close>: U+0085, U+00A0 (two bytes), U+1680,
  U+2000 to U+200A, U+2028, U+2029, U+202F, U+205F and U+3000 (three bytes).
\<close>

definition is_space :: "char \<Rightarrow> bool" where
  "is_space c = (c \<in> set [CHR '' '', CHR 0x09, CHR 0x0A, CHR 0x0B, CHR 0x0C, CHR 0x0D])"

definition space2 :: "string list" where
  "space2 = [[CHR 0xC2, CHR 0x85], [CHR 0xC2, CHR 0xA0]]"

definition space3 :: "string list" where
  "space3 =
     [[CHR 0xE1, CHR 0x9A, CHR 0x80],
      [CHR 0xE2, CHR 0x80, CHR 0x80], [CHR 0xE2, CHR 0x80, CHR 0x81], [CHR 0xE2, CHR 0x80, CHR 0x82],
      [CHR 0xE2, CHR 0x80, CHR 0x83], [CHR 0xE2, CHR 0x80, CHR 0x84], [CHR 0xE2, CHR 0x80, CHR 0x85],
      [CHR 0xE2, CHR 0x80, CHR 0x86], [CHR 0xE2, CHR 0x80, CHR 0x87], [CHR 0xE2, CHR 0x80, CHR 0x88],
      [CHR 0xE2, CHR 0x80, CHR 0x89], [CHR 0xE2, CHR 0x80, CHR 0x8A],
      [CHR 0xE2, CHR 0x80, CHR 0xA8], [CHR 0xE2, CHR 0x80, CHR 0xA9], [CHR 0xE2, CHR 0x80, CHR 0xAF],
      [CHR 0xE2, CHR 0x81, CHR 0x9F], [CHR 0xE3, CHR 0x80, CHR 0x80]]"

text \<open>
  Dropping white space at the front, one character at a time; \<open>two\<close> and \<open>three\<close>
  are the multi-byte encodings to drop (reversed when the string is).
\<close>

fun trim_front :: "string list \<Rightarrow> string list \<Rightarrow> string \<Rightarrow> string" where
  "trim_front two three [] = []"
| "trim_front two three (c # cs) =
     (if is_space c then trim_front two three cs
      else (case cs of
              [] \<Rightarrow> c # cs
            | d # ds \<Rightarrow>
                if [c, d] \<in> set two then trim_front two three ds
                else (case ds of
                        [] \<Rightarrow> c # cs
                      | e # es \<Rightarrow>
                          if [c, d, e] \<in> set three then trim_front two three es
                          else c # cs)))"

definition TrimSpace :: "string \<Rightarrow> string" where
  "TrimSpace s =
     rev (trim_front (map rev space2) (map rev space3) (rev (trim_front space2 space3 s)))"

text \<open>
  \<^verbatim>\<open>strings.ToLower\<close>, \<^verbatim>\<open>strings.Contains\<close> and \<^verbatim>\<open>strings.Split(s, "\n")\<close>;
  only the letters A-Z are given a lower case.
\<close>

definition lower_char :: "char \<Rightarrow> char" where
  "lower_char c =
     (case map_of (zip ''ABCDEFGHIJKLMNOPQRSTUVWXYZ'' ''abcdefghijklmnopqrstuvwxyz'') c of
        None \<Rightarrow> c
      | Some l \<Rightarrow> l)"

definition ToLower :: "string \<Rightarrow> string" where
  "ToLower s = map lower_char s"

fun HasPrefix :: "string \<Rightarrow> string \<Rightarrow> bool" where
  "HasPrefix s [] = True"
| "HasPrefix [] (p # ps) = False"
| "HasPrefix (c # cs) (p # ps) = (c = p \<and> HasPrefix cs ps)"

fun Contains :: "string \<Rightarrow> string \<Rightarrow> bool" where
  "Contains [] sub = (sub = [])"
| "Contains (c # cs) sub = (HasPrefix (c # cs) sub \<or> Contains cs sub)"

text \<open>Splitting at every newline; the empty string gives one empty piece, as in Go.\<close>

fun SplitLines :: "string \<Rightarrow> string list" where
  "SplitLines [] = [[]]"
| "SplitLines (c # cs) =
     (if c = CHR 0x0A then [] # SplitLines cs
      else (case SplitLines cs of
              [] \<Rightarrow> [[c]]
            | l # ls \<Rightarrow> (c # l) # ls))"

section \<open>The operating system as seen through \<^verbatim>\<open>os/exec\<close>\<close>

text \<open>
  A command is its argument vector, program name first. Running one gives its standard
  output and Go's error value: nil, an \<^verbatim>\<open>*exec.ExitError\<close> carrying the exit status
  (\<open>-1\<close> when the process died from a signal), or any other error (the binary could not
  be started).
\<close>

type_synonym argv = "string list"

datatype run_error = ExitError int | OtherError

record proc_result =
  stdout :: string
  err :: "run_error option"

text \<open>
  The errors the controller returns (each \<^verbatim>\<open>fmt.Errorf\<close> of the source is one
  constructor), and the nil dereference of an absent configuration.
\<close>

datatype error =
    NilConfigPanic
  | CommandNotFound string
  | AutosshStartFailed run_error
  | SetProxyFailed run_error
  | CurrentUserFailed
  | ReadConfigFailed string
  | ParseConfigFailed
  | MarshalFailed
  | WriteConfigFailed

text \<open>
  The operating system is a parameter: a function from its current state and a command
  to the command's result and the next state. The program state threads the OS state,
  the commands issued so far (oldest first) and the log.
\<close>

type_synonym 'w os = "'w \<Rightarrow> argv \<Rightarrow> proc_result \<times> 'w"

datatype log_msg =
    LogConnectedWithD
  | LogConnectedFallback
  | LogLsofSSHListener string
  | LogLsofNotSSH int string
  | LogDisconnected int
  | LogProxyDisableFailed run_error
  | LogPkillReturned run_error
  | LogPkillFailed run_error
  | LogStillPresent
  | LogSigkillFailed run_error
  | LogCreatedDummy string
  | LogReloading
  | LogReloadError error
  | LogReloaded nat

record 'w sys =
  world :: 'w
  trace :: "argv list"
  logs :: "log_msg list"

definition run :: "'w os \<Rightarrow> argv \<Rightarrow> 'w sys \<Rightarrow> proc_result \<times> 'w sys" where
  "run ex cmd s =
     (let (r, w') = ex (world s) cmd
      in (r, s\<lparr>world := w', trace := trace s @ [cmd]\<rparr>))"

definition log_printf :: "log_msg \<Rightarrow> 'w sys \<Rightarrow> 'w sys" where
  "log_printf m s = s\<lparr>logs := logs s @ [m]\<rparr>"

text \<open>
  A scripted operating system for concrete runs: its state is the list of results still
  to be handed out, one per command, whatever the command is; once the script is used up
  every command fails to start.
\<close>

definition ok :: "string \<Rightarrow> proc_result" where
  "ok out = \<lparr>stdout = out, err = None\<rparr>"

definition exit_with :: "int \<Rightarrow> proc_result" where
  "exit_with st = \<lparr>stdout = [], err = Some (ExitError st)\<rparr>"

definition not_started :: proc_result where
  "not_started = \<lparr>stdout = [], err = Some OtherError\<rparr>"

fun scripted :: "proc_result list os" where
  "scripted [] cmd = (not_started, [])"
| "scripted (r # rs) cmd = (r, rs)"

definition boot :: "'w \<Rightarrow> 'w sys" where
  "boot w = \<lparr>world = w, trace = [], logs = []\<rparr>"

section \<open>disconnectVPN (main.go, lines 379-413)\<close>

definition proxy_off_cmd :: "Config \<Rightarrow> argv" where
  "proxy_off_cmd cfg = [''networksetup'', ''-setsocksfirewallproxystate'', Interface cfg, ''off'']"

definition pkill_cmd :: argv where
  "pkill_cmd = [''pkill'', ''autossh'']"

definition pgrep_cmd :: argv where
  "pgrep_cmd = [''pgrep'', ''autossh'']"

definition pkill9_cmd :: argv where
  "pkill9_cmd = [''pkill'', ''-9'', ''autossh'']"

text \<open>Lines 400-412: the existence check and the escalation to SIGKILL.\<close>

definition sigkill_if_present :: "'w os \<Rightarrow> 'w sys \<Rightarrow> error option \<times> 'w sys" where
  "sigkill_if_present ex s =
     (let (rc, s1) = run ex pgrep_cmd s
      in case err rc of
           Some e \<Rightarrow> (None, s1)
         | None \<Rightarrow>
             (let s2 = log_printf LogStillPresent s1;
                  (rk, s3) = run ex pkill9_cmd s2
              in case err rk of
                   Some e \<Rightarrow> (None, log_printf (LogSigkillFailed e) s3)
                 | None \<Rightarrow> (None, s3)))"

text \<open>
  The returned \<open>error option\<close> is Go's \<^verbatim>\<open>error\<close>, \<open>None\<close> for nil. With a nil
  configuration the first statement dereferences it and the goroutine panics.
\<close>

definition disconnectVPN :: "'w os \<Rightarrow> VPNApp \<Rightarrow> 'w sys \<Rightarrow> error option \<times> 'w sys" where
  "disconnectVPN ex app s =
     (case config app of
        None \<Rightarrow> (Some NilConfigPanic, s)
      | Some cfg \<Rightarrow>
          (let (rp, s1) = run ex (proxy_off_cmd cfg) s;
               s2 = (case err rp of
                       Some e \<Rightarrow> log_printf (LogProxyDisableFailed e) s1
                     | None \<Rightarrow> s1);
               (rk, s3) = run ex pkill_cmd s2
           in case err rk of
                None \<Rightarrow> sigkill_if_present ex s3
              | Some (ExitError st) \<Rightarrow>
                  (if st = 1 then (None, s3)
                   else sigkill_if_present ex (log_printf (LogPkillReturned (ExitError st)) s3))
              | Some OtherError \<Rightarrow>
                  sigkill_if_present ex (log_printf (LogPkillFailed OtherError) s3)))"

section \<open>connectVPN (main.go, lines 340-377)\<close>

text \<open>Lines 342-347: a linear scan that stops at the first command with the name.\<close>

fun find_command :: "string \<Rightarrow> Command list \<Rightarrow> Command option" where
  "find_command n [] = None"
| "find_command n (c # cs) = (if Name c = n then Some c else find_command n cs)"

definition autossh_cmd :: "Config \<Rightarrow> Command \<Rightarrow> argv" where
  "autossh_cmd cfg tc =
     [AutoSSHPath cfg,
      ''-f'', ''-M'', ''0'',
      ''-o'', ''ServerAliveInterval '' @ fmt_d (ServerAliveInterval (ServerOptions cfg)),
      ''-o'', ''ServerAliveCountMax '' @ fmt_d (ServerAliveCountMax (ServerOptions cfg)),
      ''-D'', ''localhost:'' @ fmt_d (LocalPort cfg),
      ''-N'', Server tc]"

definition proxy_on_cmd :: "Config \<Rightarrow> argv" where
  "proxy_on_cmd cfg =
     [''networksetup'', ''-setsocksfirewallproxy'', Interface cfg, ''127.0.0.1'',
      fmt_d (LocalPort cfg)]"

definition connectVPN :: "'w os \<Rightarrow> VPNApp \<Rightarrow> string \<Rightarrow> 'w sys \<Rightarrow> error option \<times> 'w sys" where
  "connectVPN ex app commandName s =
     (case config app of
        None \<Rightarrow> (Some NilConfigPanic, s)
      | Some cfg \<Rightarrow>
          (case find_command commandName (Commands cfg) of
             None \<Rightarrow> (Some (CommandNotFound commandName), s)
           | Some targetCommand \<Rightarrow>
               (let (d, s1) = disconnectVPN ex app s;
                    (ra, s2) = run ex (autossh_cmd cfg targetCommand) s1
                in case err ra of
                     Some e \<Rightarrow> (Some (AutosshStartFailed e), s2)
                   | None \<Rightarrow>
                       (let (rp, s3) = run ex (proxy_on_cmd cfg) s2
                        in case err rp of
                             Some e \<Rightarrow> (Some (SetProxyFailed e), s3)
                           | None \<Rightarrow> (None, s3)))))"

section \<open>isVPNConnected (main.go, lines 291-338)\<close>

definition pgrep_f_cmd :: argv where
  "pgrep_f_cmd = [''pgrep'', ''-f'', ''autossh.*-D.*localhost'']"

definition lsof_cmd :: "Config \<Rightarrow> argv" where
  "lsof_cmd cfg = [''lsof'', ''-nP'', ''-iTCP:'' @ fmt_d (LocalPort cfg), ''-sTCP:LISTEN'']"

text \<open>Line 319: the test applied to each line after the header, lower-cased.\<close>

definition ssh_line :: "string \<Rightarrow> bool" where
  "ssh_line ln = (Contains (ToLower ln) ''autossh'' \<or> Contains (ToLower ln) ''ssh'')"

text \<open>Lines 331-337: the final log line and the negative answer.\<close>

definition report_disconnected :: "VPNApp \<Rightarrow> 'w sys \<Rightarrow> bool \<times> 'w sys" where
  "report_disconnected app s =
     (False, log_printf (LogDisconnected (case config app of None \<Rightarrow> 0 | Some cfg \<Rightarrow> LocalPort cfg)) s)"

definition isVPNConnected :: "'w os \<Rightarrow> VPNApp \<Rightarrow> 'w sys \<Rightarrow> bool \<times> 'w sys" where
  "isVPNConnected ex app s =
     (let (r1, s1) = run ex pgrep_f_cmd s
      in if err r1 = None \<and> length (TrimSpace (stdout r1)) > 0
         then (True, log_printf LogConnectedWithD s1)
         else
          (let (r2, s2) = run ex pgrep_cmd s1
           in if err r2 = None
              then (True, log_printf LogConnectedFallback s2)
              else
               (case config app of
                  None \<Rightarrow> report_disconnected app s2
                | Some cfg \<Rightarrow>
                    if LocalPort cfg > 0
                    then
                     (let (r3, s3) = run ex (lsof_cmd cfg) s2
                      in if err r3 = None \<and> length (TrimSpace (stdout r3)) > 0
                         then
                          (let text = TrimSpace (stdout r3);
                               lines = SplitLines text
                           in case (if length lines > 1 then find ssh_line (drop 1 lines) else None) of
                                Some ln \<Rightarrow> (True, log_printf (LogLsofSSHListener (TrimSpace ln)) s3)
                              | None \<Rightarrow> (False, log_printf (LogLsofNotSSH (LocalPort cfg) text) s3))
                         else report_disconnected app s3)
                    else report_disconnected app s2)))"

section \<open>Configuration store (main.go, lines 254-289, 501-532, 566-582)\<close>

text \<open>
  What the configuration functions see of the machine: the home directory that
  \<^verbatim>\<open>user.Current\<close> reports (\<open>None\<close> when it fails), the readable files by path, and
  which paths \<^verbatim>\<open>os.WriteFile\<close> can write. \<^verbatim>\<open>encoding/json\<close> is a parameter:
  \<open>Marshal\<close> for \<^verbatim>\<open>json.MarshalIndent\<close> and \<open>Unmarshal\<close> for
  \<^verbatim>\<open>json.Unmarshal\<close> into a zero-valued \<^verbatim>\<open>Config\<close>, so a field missing from the
  file arrives as zero or the empty string; \<open>None\<close> is a returned error.
\<close>

record files_env =
  homeDir :: "string option"
  files :: "string \<rightharpoonup> string"
  writable :: "string \<Rightarrow> bool"

record json_codec =
  Marshal :: "Config \<Rightarrow> string option"
  Unmarshal :: "string \<Rightarrow> Config option"

text \<open>
  \<^verbatim>\<open>filepath.Join(dir, name)\<close> on a Unix path: the non-empty elements are joined with
  a slash and the result is cleaned as \<^verbatim>\<open>filepath.Clean\<close> does (repeated slashes and
  \<open>.\<close> elements dropped, \<open>..\<close> resolved against the element before it, no slash at
  the end).
\<close>

fun path_elems :: "string \<Rightarrow> string list" where
  "path_elems [] = [[]]"
| "path_elems (c # cs) =
     (if c = CHR ''/'' then [] # path_elems cs
      else (case path_elems cs of
              [] \<Rightarrow> [[c]]
            | l # ls \<Rightarrow> (c # l) # ls))"

fun join_elems :: "string list \<Rightarrow> string" where
  "join_elems [] = []"
| "join_elems [e] = e"
| "join_elems (e # es) = e @ ''/'' @ join_elems es"

definition clean_step :: "bool \<Rightarrow> string list \<Rightarrow> string \<Rightarrow> string list" where
  "clean_step rooted stack el =
     (if el = [] \<or> el = ''.'' then stack
      else if el = ''..'' then
        (if stack = [] then (if rooted then stack else [''..''])
         else if last stack = ''..'' then stack @ [''..'']
         else butlast stack)
      else stack @ [el])"

definition Clean :: "string \<Rightarrow> string" where
  "Clean path =
     (let rooted = HasPrefix path ''/'';
          body = join_elems (foldl (clean_step rooted) [] (path_elems path))
      in if rooted then ''/'' @ body
         else if body = [] then ''.''
         else body)"

definition filepath_Join :: "string \<Rightarrow> string \<Rightarrow> string" where
  "filepath_Join dir name =
     (let parts = filter (\<lambda>e. e \<noteq> []) [dir, name]
      in if parts = [] then [] else Clean (join_elems parts))"

text \<open>Lines 271-286: each default is applied on its own, after the parse.\<close>

definition set_defaults :: "Config \<Rightarrow> Config" where
  "set_defaults c0 =
     (let c1 = (if AutoSSHPath c0 = [] then c0\<lparr>AutoSSHPath := ''/opt/homebrew/bin/autossh''\<rparr> else c0);
          c2 = (if LocalPort c1 = 0 then c1\<lparr>LocalPort := 1234\<rparr> else c1);
          c3 = (if Interface c2 = [] then c2\<lparr>Interface := ''Wi-Fi''\<rparr> else c2);
          c4 = (if ServerAliveInterval (ServerOptions c3) = 0
                then c3\<lparr>ServerOptions := (ServerOptions c3)\<lparr>ServerAliveInterval := 10\<rparr>\<rparr> else c3);
          c5 = (if ServerAliveCountMax (ServerOptions c4) = 0
                then c4\<lparr>ServerOptions := (ServerOptions c4)\<lparr>ServerAliveCountMax := 3\<rparr>\<rparr> else c4)
      in c5)"

definition loadConfig :: "json_codec \<Rightarrow> files_env \<Rightarrow> error + Config" where
  "loadConfig js env =
     (case homeDir env of
        None \<Rightarrow> Inl CurrentUserFailed
      | Some home \<Rightarrow>
          (let configPath = filepath_Join home ''.vpn.json''
           in case files env configPath of
                None \<Rightarrow> Inl (ReadConfigFailed configPath)
              | Some data \<Rightarrow>
                  (case Unmarshal js data of
                     None \<Rightarrow> Inl ParseConfigFailed
                   | Some c \<Rightarrow> Inr (set_defaults c))))"

definition dummyConfig :: Config where
  "dummyConfig =
     \<lparr>AutoSSHPath = ''/opt/homebrew/bin/autossh'',
      LocalPort = 1234,
      Interface = ''Wi-Fi'',
      ServerOptions = \<lparr>ServerAliveInterval = 10, ServerAliveCountMax = 3\<rparr>,
      Commands = [\<lparr>Name = ''example'', Description = ''Example VPN Server'',
                   Server = ''your-server-name-or-ip''\<rparr>]\<rparr>"

text \<open>A failed write is taken to leave the files as they were.\<close>

definition createDummyConfig ::
  "json_codec \<Rightarrow> string \<Rightarrow> files_env \<times> log_msg list \<Rightarrow> error option \<times> files_env \<times> log_msg list" where
  "createDummyConfig js configPath st =
     (case st of (env, lg) \<Rightarrow>
        (case Marshal js dummyConfig of
           None \<Rightarrow> (Some MarshalFailed, env, lg)
         | Some data \<Rightarrow>
             if writable env configPath
             then (None, env\<lparr>files := (files env)(configPath \<mapsto> data)\<rparr>, lg @ [LogCreatedDummy configPath])
             else (Some WriteConfigFailed, env, lg)))"

text \<open>reloadConfiguration replaces \<^verbatim>\<open>app.config\<close> only after a successful load.\<close>

definition reloadConfiguration ::
  "json_codec \<Rightarrow> files_env \<Rightarrow> VPNApp \<times> log_msg list \<Rightarrow> VPNApp \<times> log_msg list" where
  "reloadConfiguration js env st =
     (case st of (app, lg) \<Rightarrow>
        (case loadConfig js env of
           Inl e \<Rightarrow> (app, lg @ [LogReloading, LogReloadError e])
         | Inr c \<Rightarrow> (app\<lparr>config := Some c\<rparr>, lg @ [LogReloading, LogReloaded (length (Commands c))])))"

section \<open>\<^verbatim>\<open>encoding/json\<close> for the configuration structs\<close>

text \<open>
  \<^verbatim>\<open>json.MarshalIndent(v, "", "  ")\<close> and \<^verbatim>\<open>json.Unmarshal\<close> as the program uses
  them, on the \<^verbatim>\<open>Config\<close> struct and its \<^verbatim>\<open>json\<close> tags. Text is handled byte by
  byte: bytes above 0x7F pass through unchanged in both directions, keys are matched
  without regard to ASCII case, and a \<^verbatim>\<open>\u\<close> escape of a surrogate half decodes to
  U+FFFD on its own. An empty command list is written as the empty array.
\<close>

definition hex_char :: "nat \<Rightarrow> char" where
  "hex_char d = ''0123456789abcdef'' ! (d mod 16)"

definition of_byte :: "char \<Rightarrow> nat" where
  "of_byte c = of_char c"

definition to_byte :: "nat \<Rightarrow> char" where
  "to_byte n = char_of n"

definition escape_char :: "char \<Rightarrow> string" where
  "escape_char c =
     (if c = CHR 0x22 then [CHR 0x5C, CHR 0x22]
      else if c = CHR 0x5C then [CHR 0x5C, CHR 0x5C]
      else if c = CHR 0x08 then [CHR 0x5C, CHR ''b'']
      else if c = CHR 0x0C then [CHR 0x5C, CHR ''f'']
      else if c = CHR 0x0A then [CHR 0x5C, CHR ''n'']
      else if c = CHR 0x0D then [CHR 0x5C, CHR ''r'']
      else if c = CHR 0x09 then [CHR 0x5C, CHR ''t'']
      else if of_byte c < 0x20 \<or> c = CHR ''<'' \<or> c = CHR ''>'' \<or> c = CHR ''&''
      then [CHR 0x5C, CHR ''u'', CHR ''0'', CHR ''0'', hex_char (of_byte c div 16), hex_char (of_byte c mod 16)]
      else [c])"

definition json_string :: "string \<Rightarrow> string" where
  "json_string s = [CHR 0x22] @ concat (map escape_char s) @ [CHR 0x22]"

fun join_lines :: "string list \<Rightarrow> string" where
  "join_lines [] = []"
| "join_lines [l] = l"
| "join_lines (l # ls) = l @ [CHR 0x0A] @ join_lines ls"

definition command_lines :: "bool \<Rightarrow> Command \<Rightarrow> string list" where
  "command_lines is_last k =
     [''    {'',
      ''      '' @ json_string ''name'' @ '': '' @ json_string (Name k) @ '','',
      ''      '' @ json_string ''description'' @ '': '' @ json_string (Description k) @ '','',
      ''      '' @ json_string ''server'' @ '': '' @ json_string (Server k),
      (if is_last then ''    }'' else ''    },'')]"

fun commands_lines :: "Command list \<Rightarrow> string list" where
  "commands_lines [] = []"
| "commands_lines [k] = command_lines True k"
| "commands_lines (k # ks) = command_lines False k @ commands_lines ks"

definition MarshalIndent :: "Config \<Rightarrow> string" where
  "MarshalIndent c = join_lines
     ([''{'',
       ''  '' @ json_string ''autossh_path'' @ '': '' @ json_string (AutoSSHPath c) @ '','',
       ''  '' @ json_string ''local_port'' @ '': '' @ fmt_d (LocalPort c) @ '','',
       ''  '' @ json_string ''interface'' @ '': '' @ json_string (Interface c) @ '','',
       ''  '' @ json_string ''server_options'' @ '': {'',
       ''    '' @ json_string ''server_alive_interval'' @ '': ''
              @ fmt_d (ServerAliveInterval (ServerOptions c)) @ '','',
       ''    '' @ json_string ''server_alive_count_max'' @ '': ''
              @ fmt_d (ServerAliveCountMax (ServerOptions c)),
       ''  },'']
      @ (if Commands c = [] then [''  '' @ json_string ''commands'' @ '': []'']
         else [''  '' @ json_string ''commands'' @ '': [''] @ commands_lines (Commands c) @ [''  ]''])
      @ [''}''])"

text \<open>The zero value of \<^verbatim>\<open>Config\<close>, into which \<^verbatim>\<open>json.Unmarshal\<close> decodes.\<close>

definition zero_cfg :: Config where
  "zero_cfg =
     \<lparr>AutoSSHPath = [], LocalPort = 0, Interface = [],
      ServerOptions = \<lparr>ServerAliveInterval = 0, ServerAliveCountMax = 0\<rparr>,
      Commands = []\<rparr>"

text \<open>The parser: JSON values, with a number kept as its literal.\<close>

datatype json = JNull | JBool bool | JNum string | JStr string | JArr "json list"
  | JObj "(string \<times> json) list"

definition json_ws :: "char \<Rightarrow> bool" where
  "json_ws c = (c \<in> set [CHR '' '', CHR 0x09, CHR 0x0A, CHR 0x0D])"

definition skip_ws :: "string \<Rightarrow> string" where
  "skip_ws s = dropWhile json_ws s"

definition is_digit :: "char \<Rightarrow> bool" where
  "is_digit c = (c \<in> set ''0123456789'')"

definition hexval :: "char \<rightharpoonup> nat" where
  "hexval = map_of (zip ''0123456789abcdef'' [0..<16] @ zip ''ABCDEF'' [10..<16])"

definition utf8_encode :: "nat \<Rightarrow> string" where
  "utf8_encode n =
     (if n < 0x80 then [to_byte n]
      else if n < 0x800 then [to_byte (0xC0 + n div 64), to_byte (0x80 + n mod 64)]
      else if 0xD800 \<le> n \<and> n < 0xE000 then [CHR 0xEF, CHR 0xBF, CHR 0xBD]
      else [to_byte (0xE0 + n div 4096), to_byte (0x80 + (n div 64) mod 64), to_byte (0x80 + n mod 64)])"

definition simple_escapes :: "char \<rightharpoonup> char" where
  "simple_escapes =
     map_of [(CHR 0x22, CHR 0x22), (CHR 0x5C, CHR 0x5C), (CHR ''/'', CHR ''/''),
             (CHR ''b'', CHR 0x08), (CHR ''f'', CHR 0x0C), (CHR ''n'', CHR 0x0A),
             (CHR ''r'', CHR 0x0D), (CHR ''t'', CHR 0x09)]"

text \<open>The text of a string after its opening quote; the accumulator is reversed.\<close>

fun parse_str :: "string \<Rightarrow> string \<Rightarrow> (string \<times> string) option" where
  "parse_str [] acc = None"
| "parse_str (c # cs) acc =
     (if c = CHR 0x22 then Some (rev acc, cs)
      else if c = CHR 0x5C then
        (case cs of
           [] \<Rightarrow> None
         | e # cs' \<Rightarrow>
             if e = CHR ''u'' then
               (case cs' of
                  h1 # h2 # h3 # h4 # rest \<Rightarrow>
                    (case (hexval h1, hexval h2, hexval h3, hexval h4) of
                       (Some a, Some b, Some c', Some d) \<Rightarrow>
                         parse_str rest (rev (utf8_encode (((a * 16 + b) * 16 + c') * 16 + d)) @ acc)
                     | _ \<Rightarrow> None)
                | _ \<Rightarrow> None)
             else (case simple_escapes e of
                     Some ch \<Rightarrow> parse_str cs' (ch # acc)
                   | None \<Rightarrow> None))
      else if of_byte c < 0x20 then None
      else parse_str cs (c # acc))"

definition digits_ok :: "string \<Rightarrow> bool" where
  "digits_ok ds = (ds \<noteq> [] \<and> list_all is_digit ds)"

definition valid_int_lit :: "string \<Rightarrow> bool" where
  "valid_int_lit s =
     (let ds = (case s of [] \<Rightarrow> [] | c # cs \<Rightarrow> if c = CHR ''-'' then cs else c # cs)
      in digits_ok ds \<and> (if hd ds = CHR ''0'' then length ds = 1 else True))"

definition valid_num :: "string \<Rightarrow> bool" where
  "valid_num s =
     (let is_e = (\<lambda>c. c = CHR ''e'' \<or> c = CHR ''E'');
          mant = takeWhile (\<lambda>c. \<not> is_e c) s;
          ex = dropWhile (\<lambda>c. \<not> is_e c) s;
          ip = takeWhile (\<lambda>c. c \<noteq> CHR ''.'') mant;
          fp = dropWhile (\<lambda>c. c \<noteq> CHR ''.'') mant
      in valid_int_lit ip
       \<and> (if fp = [] then True else digits_ok (tl fp))
       \<and> (if ex = [] then True
          else (case tl ex of
                  [] \<Rightarrow> False
                | c # cs \<Rightarrow> if c = CHR ''+'' \<or> c = CHR ''-'' then digits_ok cs else digits_ok (c # cs))))"

definition num_char :: "char \<Rightarrow> bool" where
  "num_char c = (is_digit c \<or> c \<in> set ''+-.eE'')"

text \<open>
  Every call uses up one unit of fuel; a document of \<open>n\<close> bytes is parsed with
  \<open>2 * n + 2\<close> units, two for each byte.
\<close>

fun parse_value :: "nat \<Rightarrow> string \<Rightarrow> (json \<times> string) option"
  and parse_elems :: "nat \<Rightarrow> string \<Rightarrow> json list \<Rightarrow> (json list \<times> string) option"
  and parse_members :: "nat \<Rightarrow> string \<Rightarrow> (string \<times> json) list \<Rightarrow> ((string \<times> json) list \<times> string) option"
where
  "parse_value 0 s = None"
| "parse_value (Suc n) s =
     (case skip_ws s of
        [] \<Rightarrow> None
      | c # cs \<Rightarrow>
          if c = CHR 0x22 then
            (case parse_str cs [] of None \<Rightarrow> None | Some (str, r) \<Rightarrow> Some (JStr str, r))
          else if c = CHR ''['' then
            (case skip_ws cs of
               [] \<Rightarrow> None
             | d # r \<Rightarrow>
                 if d = CHR '']'' then Some (JArr [], r)
                 else (case parse_elems n cs [] of None \<Rightarrow> None | Some (vs, r') \<Rightarrow> Some (JArr vs, r')))
          else if c = CHR ''{'' then
            (case skip_ws cs of
               [] \<Rightarrow> None
             | d # r \<Rightarrow>
                 if d = CHR ''}'' then Some (JObj [], r)
                 else (case parse_members n cs [] of None \<Rightarrow> None | Some (ms, r') \<Rightarrow> Some (JObj ms, r')))
          else if HasPrefix (c # cs) ''true'' then Some (JBool True, drop 4 (c # cs))
          else if HasPrefix (c # cs) ''false'' then Some (JBool False, drop 5 (c # cs))
          else if HasPrefix (c # cs) ''null'' then Some (JNull, drop 4 (c # cs))
          else if c = CHR ''-'' \<or> is_digit c then
            (let lit = takeWhile num_char (c # cs)
             in if valid_num lit then Some (JNum lit, dropWhile num_char (c # cs)) else None)
          else None)"
| "parse_elems 0 s acc = None"
| "parse_elems (Suc n) s acc =
     (case parse_value n s of
        None \<Rightarrow> None
      | Some (v, r) \<Rightarrow>
          (case skip_ws r of
             [] \<Rightarrow> None
           | c # r' \<Rightarrow>
               if c = CHR '','' then parse_elems n r' (v # acc)
               else if c = CHR '']'' then Some (rev (v # acc), r')
               else None))"
| "parse_members 0 s acc = None"
| "parse_members (Suc n) s acc =
     (case skip_ws s of
        [] \<Rightarrow> None
      | c # cs \<Rightarrow>
          if c = CHR 0x22 then
            (case parse_str cs [] of
               None \<Rightarrow> None
             | Some (k, r) \<Rightarrow>
                 (case skip_ws r of
                    [] \<Rightarrow> None
                  | c2 # r2 \<Rightarrow>
                      if c2 = CHR '':'' then
                        (case parse_value n r2 of
                           None \<Rightarrow> None
                         | Some (v, r3) \<Rightarrow>
                             (case skip_ws r3 of
                                [] \<Rightarrow> None
                              | c3 # r4 \<Rightarrow>
                                  if c3 = CHR '','' then parse_members n r4 ((k, v) # acc)
                                  else if c3 = CHR ''}'' then Some (rev ((k, v) # acc), r4)
                                  else None))
                      else None))
          else None)"

definition json_parse :: "string \<Rightarrow> json option" where
  "json_parse s =
     (case parse_value (2 * length s + 2) s of
        None \<Rightarrow> None
      | Some (v, r) \<Rightarrow> if skip_ws r = [] then Some v else None)"

text \<open>
  Decoding into the structs. A key is matched to a field by its tag; an unknown key is
  skipped; a later occurrence of a key is applied after an earlier one. JSON null leaves
  a string, an integer or a struct as it is and makes a slice nil. A value of the wrong
  kind, or an integer that is not a plain literal within 64 bits, is an error.
\<close>

definition digit_val :: "char \<Rightarrow> int" where
  "digit_val c = (case map_of (zip ''0123456789'' [0, 1, 2, 3, 4, 5, 6, 7, 8, 9]) c of
                    None \<Rightarrow> 0 | Some d \<Rightarrow> d)"

definition dec_val :: "string \<Rightarrow> int" where
  "dec_val ds = foldl (\<lambda>a c. a * 10 + digit_val c) 0 ds"

definition decode_int :: "string \<Rightarrow> int option" where
  "decode_int lit =
     (if valid_int_lit lit
      then (let v = (case lit of
                       [] \<Rightarrow> 0
                     | c # cs \<Rightarrow> if c = CHR ''-'' then - dec_val cs else dec_val (c # cs))
            in if - (2 ^ 63) \<le> v \<and> v < 2 ^ 63 then Some v else None)
      else None)"

definition dec_string :: "json \<Rightarrow> string \<Rightarrow> string option" where
  "dec_string v old = (case v of JStr s \<Rightarrow> Some s | JNull \<Rightarrow> Some old | _ \<Rightarrow> None)"

definition dec_int :: "json \<Rightarrow> int \<Rightarrow> int option" where
  "dec_int v old = (case v of JNum lit \<Rightarrow> decode_int lit | JNull \<Rightarrow> Some old | _ \<Rightarrow> None)"

definition is_field :: "string \<Rightarrow> string \<Rightarrow> bool" where
  "is_field tag key = (ToLower key = tag)"

fun dec_members :: "(string \<Rightarrow> json \<Rightarrow> 'a \<Rightarrow> 'a option) \<Rightarrow> (string \<times> json) list \<Rightarrow> 'a \<Rightarrow> 'a option" where
  "dec_members f [] x = Some x"
| "dec_members f ((k, v) # ms) x = (case f k v x of None \<Rightarrow> None | Some x' \<Rightarrow> dec_members f ms x')"

definition options_field :: "string \<Rightarrow> json \<Rightarrow> ServerOptions \<Rightarrow> ServerOptions option" where
  "options_field k v so =
     (if is_field ''server_alive_interval'' k
      then map_option (\<lambda>i. so\<lparr>ServerAliveInterval := i\<rparr>) (dec_int v (ServerAliveInterval so))
      else if is_field ''server_alive_count_max'' k
      then map_option (\<lambda>i. so\<lparr>ServerAliveCountMax := i\<rparr>) (dec_int v (ServerAliveCountMax so))
      else Some so)"

definition command_field :: "string \<Rightarrow> json \<Rightarrow> Command \<Rightarrow> Command option" where
  "command_field k v cmd =
     (if is_field ''name'' k then map_option (\<lambda>s. cmd\<lparr>Name := s\<rparr>) (dec_string v (Name cmd))
      else if is_field ''description'' k
      then map_option (\<lambda>s. cmd\<lparr>Description := s\<rparr>) (dec_string v (Description cmd))
      else if is_field ''server'' k then map_option (\<lambda>s. cmd\<lparr>Server := s\<rparr>) (dec_string v (Server cmd))
      else Some cmd)"

definition zero_command :: Command where
  "zero_command = \<lparr>Name = [], Description = [], Server = []\<rparr>"

definition dec_command :: "json \<Rightarrow> Command option" where
  "dec_command v =
     (case v of
        JObj ms \<Rightarrow> dec_members command_field ms zero_command
      | JNull \<Rightarrow> Some zero_command
      | _ \<Rightarrow> None)"

fun dec_command_list :: "json list \<Rightarrow> Command list option" where
  "dec_command_list [] = Some []"
| "dec_command_list (v # vs) =
     (case dec_command v of
        None \<Rightarrow> None
      | Some k \<Rightarrow> (case dec_command_list vs of None \<Rightarrow> None | Some ks \<Rightarrow> Some (k # ks)))"

definition config_field :: "string \<Rightarrow> json \<Rightarrow> Config \<Rightarrow> Config option" where
  "config_field k v c =
     (if is_field ''autossh_path'' k
      then map_option (\<lambda>s. c\<lparr>AutoSSHPath := s\<rparr>) (dec_string v (AutoSSHPath c))
      else if is_field ''local_port'' k
      then map_option (\<lambda>i. c\<lparr>LocalPort := i\<rparr>) (dec_int v (LocalPort c))
      else if is_field ''interface'' k
      then map_option (\<lambda>s. c\<lparr>Interface := s\<rparr>) (dec_string v (Interface c))
      else if is_field ''server_options'' k
      then (case v of
              JObj ms \<Rightarrow> map_option (\<lambda>so. c\<lparr>ServerOptions := so\<rparr>)
                           (dec_members options_field ms (ServerOptions c))
            | JNull \<Rightarrow> Some c
            | _ \<Rightarrow> None)
      else if is_field ''commands'' k
      then (case v of
              JArr vs \<Rightarrow> map_option (\<lambda>ks. c\<lparr>Commands := ks\<rparr>) (dec_command_list vs)
            | JNull \<Rightarrow> Some (c\<lparr>Commands := []\<rparr>)
            | _ \<Rightarrow> None)
      else Some c)"

definition json_Unmarshal :: "string \<Rightarrow> Config option" where
  "json_Unmarshal data =
     (case json_parse data of
        None \<Rightarrow> None
      | Some v \<Rightarrow>
          (case v of
             JObj ms \<Rightarrow> dec_members config_field ms zero_cfg
           | JNull \<Rightarrow> Some zero_cfg
           | _ \<Rightarrow> None))"

definition go_json :: json_codec where
  "go_json = \<lparr>Marshal = (\<lambda>c. Some (MarshalIndent c)), Unmarshal = json_Unmarshal\<rparr>"

section \<open>Concrete machines for running the model\<close>

text \<open>The configuration of the scenario: one profile, \<open>office\<close>, on port 1234 over Wi-Fi.\<close>

definition office_cfg :: Config where
  "office_cfg =
     \<lparr>AutoSSHPath = ''/opt/homebrew/bin/autossh'',
      LocalPort = 1234,
      Interface = ''Wi-Fi'',
      ServerOptions = \<lparr>ServerAliveInterval = 10, ServerAliveCountMax = 3\<rparr>,
      Commands = [\<lparr>Name = ''office'', Description = ''Office'', Server = ''office.example.com''\<rparr>]\<rparr>"

definition office_app :: VPNApp where
  "office_app = \<lparr>config = Some office_cfg\<rparr>"

text \<open>
  A configuration with no default value in it and three profiles, two of them called
  \<open>lab\<close>.
\<close>

definition lab_cfg :: Config where
  "lab_cfg =
     \<lparr>AutoSSHPath = ''/usr/local/bin/autossh'',
      LocalPort = 8080,
      Interface = ''Ethernet'',
      ServerOptions = \<lparr>ServerAliveInterval = 30, ServerAliveCountMax = 5\<rparr>,
      Commands = [\<lparr>Name = ''home'', Description = ''Home'', Server = ''home.example.org''\<rparr>,
                  \<lparr>Name = ''lab'', Description = ''Lab, first'', Server = ''lab-1.example.org''\<rparr>,
                  \<lparr>Name = ''lab'', Description = ''Lab, second'', Server = ''lab-2.example.org''\<rparr>]\<rparr>"

definition lab_app :: VPNApp where
  "lab_app = \<lparr>config = Some lab_cfg\<rparr>"

text \<open>
  What \<^verbatim>\<open>lsof -nP -iTCP:1234 -sTCP:LISTEN\<close> prints when a Python process of the user
  \<open>ssharma\<close> listens on the port: the header and one line.
\<close>

definition lsof_python :: string where
  "lsof_python =
     ''COMMAND   PID    USER   FD   TYPE DEVICE SIZE/OFF NODE NAME'' @ [CHR 0x0A] @
     ''python3  4242 ssharma    3u  IPv4 0x1a2b      0t0  TCP 127.0.0.1:1234 (LISTEN)'' @ [CHR 0x0A]"

text \<open>
  The COMMAND column of a line of \<^verbatim>\<open>lsof\<close> output, the name of the owning process:
  the text before the first blank. This is the column the comment at line 313 names.
\<close>

definition lsof_command_column :: "string \<Rightarrow> string" where
  "lsof_command_column ln = takeWhile (\<lambda>c. \<not> is_space c) ln"

definition listener_commands :: "string \<Rightarrow> string list" where
  "listener_commands out = map lsof_command_column (drop 1 (SplitLines (TrimSpace out)))"

text \<open>
  A JSON codec given by a finite table of documents and the configurations they stand
  for, and three documents: one with an empty \<^verbatim>\<open>server_options\<close> object and nothing
  else, one that only sets \<^verbatim>\<open>local_port\<close> to 70000, and the text expected from
  \<^verbatim>\<open>json.MarshalIndent\<close> for the template configuration.
\<close>

definition table_codec :: "(string \<times> Config) list \<Rightarrow> json_codec" where
  "table_codec tab =
     \<lparr>Marshal = (\<lambda>c. map_option fst (find (\<lambda>e. snd e = c) tab)),
      Unmarshal = map_of tab\<rparr>"

definition dq :: "string \<Rightarrow> string" where
  "dq s = [CHR 0x22] @ s @ [CHR 0x22]"

definition empty_options_json :: string where
  "empty_options_json = ''{'' @ dq ''server_options'' @ '': {}}''"

definition port_70000_json :: string where
  "port_70000_json = ''{'' @ dq ''local_port'' @ '': 70000}''"

definition dummy_json :: string where
  "dummy_json = join_lines
     [''{'',
      ''  '' @ dq ''autossh_path'' @ '': '' @ dq ''/opt/homebrew/bin/autossh'' @ '','',
      ''  '' @ dq ''local_port'' @ '': 1234,'',
      ''  '' @ dq ''interface'' @ '': '' @ dq ''Wi-Fi'' @ '','',
      ''  '' @ dq ''server_options'' @ '': {'',
      ''    '' @ dq ''server_alive_interval'' @ '': 10,'',
      ''    '' @ dq ''server_alive_count_max'' @ '': 3'',
      ''  },'',
      ''  '' @ dq ''commands'' @ '': ['',
      ''    {'',
      ''      '' @ dq ''name'' @ '': '' @ dq ''example'' @ '','',
      ''      '' @ dq ''description'' @ '': '' @ dq ''Example VPN Server'' @ '','',
      ''      '' @ dq ''server'' @ '': '' @ dq ''your-server-name-or-ip'',
      ''    }'',
      ''  ]'',
      ''}'']"

definition sample_codec :: json_codec where
  "sample_codec =
     table_codec
       [(empty_options_json, zero_cfg),
        (port_70000_json, zero_cfg\<lparr>LocalPort := 70000\<rparr>)]"

text \<open>A machine whose user has the home directory \<open>/Users/me\<close> and the given files.\<close>

definition home_env :: "(string \<times> string) list \<Rightarrow> files_env" where
  "home_env fl = \<lparr>homeDir = Some ''/Users/me'', files = map_of fl, writable = (\<lambda>p. True)\<rparr>"

definition vpn_json :: string where
  "vpn_json = ''/Users/me/.vpn.json''"

section \<open>Basic facts about the model\<close>

lemma run_eq:
  "run ex cmd s =
     (fst (ex (world s) cmd), s\<lparr>world := snd (ex (world s) cmd), trace := trace s @ [cmd]\<rparr>)"
  by (simp add: run_def split: prod.splits)

lemma log_printf_simps:
  "trace (log_printf m s) = trace s"
  "world (log_printf m s) = world s"
  "logs (log_printf m s) = logs s @ [m]"
  by (simp_all add: log_printf_def)

text \<open>
  The decimal text of a number reads back as the number, and a negative number is the
  minus sign before the text of its absolute value.
\<close>

lemma digit_val_digit_char: "d < 10 \<Longrightarrow> digit_val (digit_char d) = int d"
proof -
  assume "d < 10"
  then have "d \<in> {0, 1, 2, 3, 4, 5, 6, 7, 8, 9}"
    by auto
  then show ?thesis
    by (elim insertE emptyE) (simp_all add: digit_val_def digit_char_def)
qed

lemma dec_val_snoc: "dec_val (ds @ [c]) = dec_val ds * 10 + digit_val c"
  by (simp add: dec_val_def)

lemma dec_val_nat_dec: "dec_val (nat_dec n) = int n"
proof (induction n rule: nat_dec.induct)
  case (1 n)
  show ?case
  proof (cases "n < 10")
    case True
    then show ?thesis
      by (simp add: nat_dec.simps [of n] dec_val_def digit_val_digit_char)
  next
    case False
    have "dec_val (nat_dec n) = dec_val (nat_dec (n div 10)) * 10 + digit_val (digit_char (n mod 10))"
      using False by (simp add: nat_dec.simps [of n] dec_val_snoc)
    also have "\<dots> = int (n div 10) * 10 + int (n mod 10)"
      using "1.IH" [OF False] by (simp add: digit_val_digit_char)
    also have "\<dots> = int n"
      by presburger
    finally show ?thesis .
  qed
qed

lemma fmt_d_reads_back: "0 \<le> i \<Longrightarrow> dec_val (fmt_d i) = i"
  by (simp add: fmt_d_def dec_val_nat_dec)

lemma fmt_d_negative: "i < 0 \<Longrightarrow> fmt_d i = CHR ''-'' # fmt_d (- i)"
  by (simp add: fmt_d_def)

lemma find_command_None_iff: "find_command n cs = None \<longleftrightarrow> n \<notin> Name ` set cs"
  by (induction cs) auto

lemma find_command_SomeD: "find_command n cs = Some c \<Longrightarrow> c \<in> set cs \<and> Name c = n"
  by (induction cs) (auto split: if_splits)

lemma find_command_first:
  "find_command n cs = Some c \<Longrightarrow>
     \<exists>pre post. cs = pre @ c # post \<and> n \<notin> Name ` set pre \<and> Name c = n"
proof (induction cs)
  case Nil
  then show ?case by simp
next
  case (Cons a cs)
  show ?case
  proof (cases "Name a = n")
    case True
    with Cons.prems have "a = c" by simp
    with True have "a # cs = [] @ c # cs \<and> n \<notin> Name ` set [] \<and> Name c = n" by simp
    then show ?thesis by blast
  next
    case False
    with Cons.prems have "find_command n cs = Some c" by simp
    from Cons.IH [OF this] obtain pre post where
      "cs = pre @ c # post" "n \<notin> Name ` set pre" "Name c = n" by blast
    with False have "a # cs = (a # pre) @ c # post \<and> n \<notin> Name ` set (a # pre) \<and> Name c = n"
      by auto
    then show ?thesis by blast
  qed
qed

lemma find_command_first_conv:
  "cs = pre @ c # post \<Longrightarrow> n \<notin> Name ` set pre \<Longrightarrow> Name c = n \<Longrightarrow> find_command n cs = Some c"
  by (induction pre arbitrary: cs) auto

lemma sigkill_if_present_result: "fst (sigkill_if_present ex s) = None"
  by (simp add: sigkill_if_present_def run_eq Let_def split: option.splits)

lemma sigkill_if_present_trace: "\<exists>cs. trace (snd (sigkill_if_present ex t)) = trace t @ cs"
  by (simp add: sigkill_if_present_def run_eq log_printf_def Let_def split: option.splits)

lemma sigkill_if_present_logs_eq:
  "logs (snd (sigkill_if_present ex t)) =
     logs t @
     (if err (fst (ex (world t) pgrep_cmd)) = None
      then LogStillPresent #
           (case err (fst (ex (snd (ex (world t) pgrep_cmd)) pkill9_cmd)) of
              None \<Rightarrow> [] | Some e \<Rightarrow> [LogSigkillFailed e])
      else [])"
  by (simp add: sigkill_if_present_def run_eq log_printf_def Let_def split: option.splits)

text \<open>The state after the first two commands of disconnectVPN, and what follows them.\<close>

lemma disconnectVPN_after_pkill:
  assumes "config app = Some cfg"
  obtains s3 where
    "world s3 = snd (ex (snd (ex (world s) (proxy_off_cmd cfg))) pkill_cmd)"
    "trace s3 = trace s @ [proxy_off_cmd cfg, pkill_cmd]"
    "logs s3 = logs s @ (case err (fst (ex (world s) (proxy_off_cmd cfg))) of
                           None \<Rightarrow> [] | Some e \<Rightarrow> [LogProxyDisableFailed e])"
    "disconnectVPN ex app s =
      (case err (fst (ex (snd (ex (world s) (proxy_off_cmd cfg))) pkill_cmd)) of
         None \<Rightarrow> sigkill_if_present ex s3
       | Some (ExitError st) \<Rightarrow>
           (if st = 1 then (None, s3)
            else sigkill_if_present ex (log_printf (LogPkillReturned (ExitError st)) s3))
       | Some OtherError \<Rightarrow> sigkill_if_present ex (log_printf (LogPkillFailed OtherError) s3))"
proof -
  obtain rp s1 where r1: "run ex (proxy_off_cmd cfg) s = (rp, s1)"
    by (cases "run ex (proxy_off_cmd cfg) s")
  define s2 where
    "s2 = (case err rp of Some e \<Rightarrow> log_printf (LogProxyDisableFailed e) s1 | None \<Rightarrow> s1)"
  obtain rk s3 where r2: "run ex pkill_cmd s2 = (rk, s3)"
    by (cases "run ex pkill_cmd s2")
  have rp: "rp = fst (ex (world s) (proxy_off_cmd cfg))"
    and s1: "world s1 = snd (ex (world s) (proxy_off_cmd cfg))"
            "trace s1 = trace s @ [proxy_off_cmd cfg]" "logs s1 = logs s"
    using r1 by (auto simp: run_eq)
  have s2: "world s2 = world s1" "trace s2 = trace s1"
    "logs s2 = logs s1 @ (case err rp of None \<Rightarrow> [] | Some e \<Rightarrow> [LogProxyDisableFailed e])"
    by (simp_all add: s2_def log_printf_simps split: option.splits)
  have rk: "rk = fst (ex (world s2) pkill_cmd)"
    and s3: "world s3 = snd (ex (world s2) pkill_cmd)"
            "trace s3 = trace s2 @ [pkill_cmd]" "logs s3 = logs s2"
    using r2 by (auto simp: run_eq)
  have unfolded: "disconnectVPN ex app s =
      (case err rk of
         None \<Rightarrow> sigkill_if_present ex s3
       | Some (ExitError st) \<Rightarrow>
           (if st = 1 then (None, s3)
            else sigkill_if_present ex (log_printf (LogPkillReturned (ExitError st)) s3))
       | Some OtherError \<Rightarrow> sigkill_if_present ex (log_printf (LogPkillFailed OtherError) s3))"
    using assms r1 r2 by (simp add: disconnectVPN_def s2_def)
  show thesis
  proof (rule that [of s3])
    show "world s3 = snd (ex (snd (ex (world s) (proxy_off_cmd cfg))) pkill_cmd)"
      by (simp add: s3 s2 s1)
    show "trace s3 = trace s @ [proxy_off_cmd cfg, pkill_cmd]"
      by (simp add: s3 s2 s1)
    show "logs s3 = logs s @ (case err (fst (ex (world s) (proxy_off_cmd cfg))) of
                           None \<Rightarrow> [] | Some e \<Rightarrow> [LogProxyDisableFailed e])"
      by (simp add: s3 s2 s1 rp)
    show "disconnectVPN ex app s =
      (case err (fst (ex (snd (ex (world s) (proxy_off_cmd cfg))) pkill_cmd)) of
         None \<Rightarrow> sigkill_if_present ex s3
       | Some (ExitError st) \<Rightarrow>
           (if st = 1 then (None, s3)
            else sigkill_if_present ex (log_printf (LogPkillReturned (ExitError st)) s3))
       | Some OtherError \<Rightarrow> sigkill_if_present ex (log_printf (LogPkillFailed OtherError) s3))"
      using unfolded by (simp add: rk s2 s1)
  qed
qed

lemma disconnectVPN_trace_prefix:
  assumes "config app = Some cfg"
  shows "\<exists>rest. trace (snd (disconnectVPN ex app s)) =
           trace s @ [[''networksetup'', ''-setsocksfirewallproxystate'', Interface cfg, ''off''],
                      [''pkill'', ''autossh'']] @ rest"
proof -
  from disconnectVPN_after_pkill [OF assms, of ex s] obtain s3 where
    t: "trace s3 = trace s @ [proxy_off_cmd cfg, pkill_cmd]"
    and u: "disconnectVPN ex app s =
      (case err (fst (ex (snd (ex (world s) (proxy_off_cmd cfg))) pkill_cmd)) of
         None \<Rightarrow> sigkill_if_present ex s3
       | Some (ExitError st) \<Rightarrow>
           (if st = 1 then (None, s3)
            else sigkill_if_present ex (log_printf (LogPkillReturned (ExitError st)) s3))
       | Some OtherError \<Rightarrow> sigkill_if_present ex (log_printf (LogPkillFailed OtherError) s3))"
    by blast
  have "\<exists>rest. trace (snd (disconnectVPN ex app s)) = trace s3 @ rest"
    unfolding u
    using sigkill_if_present_trace [of ex s3]
      sigkill_if_present_trace [of ex "log_printf (LogPkillFailed OtherError) s3"]
      sigkill_if_present_trace [of ex "log_printf (LogPkillReturned e) s3" for e]
    by (auto simp: log_printf_simps split: option.splits run_error.splits)
  then show ?thesis
    unfolding t by (simp add: proxy_off_cmd_def pkill_cmd_def)
qed

lemma office_cfg_app: "config office_app = Some office_cfg"
  by (simp add: office_app_def)

lemma office_has: "''office'' \<in> Name ` set (Commands office_cfg)"
  by (simp add: office_cfg_def)

lemma lab_cfg_app: "config lab_app = Some lab_cfg"
  by (simp add: lab_app_def)

lemma lab_has: "''lab'' \<in> Name ` set (Commands lab_cfg)"
  by (simp add: lab_cfg_def)

lemma set_defaults_fields:
  "AutoSSHPath (set_defaults c) = (if AutoSSHPath c = [] then ''/opt/homebrew/bin/autossh'' else AutoSSHPath c)"
  "LocalPort (set_defaults c) = (if LocalPort c = 0 then 1234 else LocalPort c)"
  "Interface (set_defaults c) = (if Interface c = [] then ''Wi-Fi'' else Interface c)"
  "ServerAliveInterval (ServerOptions (set_defaults c)) =
     (if ServerAliveInterval (ServerOptions c) = 0 then 10 else ServerAliveInterval (ServerOptions c))"
  "ServerAliveCountMax (ServerOptions (set_defaults c)) =
     (if ServerAliveCountMax (ServerOptions c) = 0 then 3 else ServerAliveCountMax (ServerOptions c))"
  "Commands (set_defaults c) = Commands c"
  by (simp_all add: set_defaults_def Let_def)

lemma loadConfig_Inr_iff:
  "loadConfig js env = Inr c \<longleftrightarrow>
     (\<exists>home data p. homeDir env = Some home
        \<and> files env (filepath_Join home ''.vpn.json'') = Some data
        \<and> Unmarshal js data = Some p \<and> c = set_defaults p)"
  by (auto simp: loadConfig_def Let_def split: option.splits)

lemma vpn_json_path: "filepath_Join ''/Users/me'' ''.vpn.json'' = vpn_json"
  by code_simp

lemma home_env_simps:
  "homeDir (home_env fl) = Some ''/Users/me''"
  "files (home_env fl) = map_of fl"
  "writable (home_env fl) p"
  by (simp_all add: home_env_def)

lemma sample_codec_empty_options: "Unmarshal sample_codec empty_options_json = Some zero_cfg"
  by (simp add: sample_codec_def table_codec_def)

lemma sample_codec_port_70000:
  "Unmarshal sample_codec port_70000_json = Some (zero_cfg\<lparr>LocalPort := 70000\<rparr>)"
  by code_simp

lemma sample_codec_garbage: "Unmarshal sample_codec ''not json'' = None"
  by code_simp

text \<open>
  The template configuration is written as the expected text and read back as itself;
  the two sample documents and the text that is not JSON are decoded by the model of
  \<^verbatim>\<open>encoding/json\<close> as the table says.
\<close>

lemma MarshalIndent_dummyConfig: "MarshalIndent dummyConfig = dummy_json"
  by (simp add: MarshalIndent_def dummyConfig_def dummy_json_def command_lines_def json_string_def
        escape_char_def of_byte_def dq_def fmt_d_def nat_dec.simps digit_char_def)

lemma json_Unmarshal_dummy_json: "json_Unmarshal dummy_json = Some dummyConfig"
  by code_simp

lemma json_Unmarshal_empty_options: "json_Unmarshal empty_options_json = Some zero_cfg"
  by code_simp

lemma json_Unmarshal_port_70000:
  "json_Unmarshal port_70000_json = Some (zero_cfg\<lparr>LocalPort := 70000\<rparr>)"
  by code_simp

lemma json_Unmarshal_garbage: "json_Unmarshal ''not json'' = None"
  by code_simp

section \<open>Connect and Disconnect\<close>

text \<open>
  C1, as amended. For a configuration that has a profile with the requested name,
  connectVPN resolves the profile, the first one in the list with that name, then runs
  disconnectVPN (which starts by switching the proxy off and killing autossh), then
  spawns the configured autossh binary with \<open>-f -M 0\<close>, the two keepalive options with
  the configured numbers, \<open>-D localhost:port\<close>, \<open>-N\<close> and the profile's server. The
  command that enables the SOCKS proxy for the configured interface at 127.0.0.1 and the
  port follows, as the last command, exactly when the spawn succeeded. When the spawn
  fails, its error is returned and nothing is run after it.
\<close>

theorem connectVPN_order:
  assumes "config app = Some cfg" and "commandName \<in> Name ` set (Commands cfg)"
  shows "\<exists>pre tc post s1 rest.
           Commands cfg = pre @ tc # post
         \<and> commandName \<notin> Name ` set pre
         \<and> Name tc = commandName
         \<and> s1 = snd (disconnectVPN ex app s)
         \<and> trace s1 =
             trace s @ [[''networksetup'', ''-setsocksfirewallproxystate'', Interface cfg, ''off''],
                        [''pkill'', ''autossh'']] @ rest
         \<and> (let spawn =
                   [AutoSSHPath cfg, ''-f'', ''-M'', ''0'',
                    ''-o'', ''ServerAliveInterval '' @ fmt_d (ServerAliveInterval (ServerOptions cfg)),
                    ''-o'', ''ServerAliveCountMax '' @ fmt_d (ServerAliveCountMax (ServerOptions cfg)),
                    ''-D'', ''localhost:'' @ fmt_d (LocalPort cfg),
                    ''-N'', Server tc];
                 enable =
                   [''networksetup'', ''-setsocksfirewallproxy'', Interface cfg, ''127.0.0.1'',
                    fmt_d (LocalPort cfg)]
             in trace (snd (connectVPN ex app commandName s)) =
                  trace s1 @ [spawn] @
                  (if err (fst (ex (world s1) spawn)) = None then [enable] else [])
              \<and> (\<forall>e. err (fst (ex (world s1) spawn)) = Some e
                    \<longrightarrow> fst (connectVPN ex app commandName s) = Some (AutosshStartFailed e)))"
proof -
  from assms(2) obtain tc where tc: "find_command commandName (Commands cfg) = Some tc"
    using find_command_None_iff [of commandName "Commands cfg"]
    by (cases "find_command commandName (Commands cfg)") auto
  from find_command_first [OF tc] obtain pre post where
    first: "Commands cfg = pre @ tc # post" "commandName \<notin> Name ` set pre" "Name tc = commandName"
    by blast
  obtain d s1 where d: "disconnectVPN ex app s = (d, s1)"
    by (cases "disconnectVPN ex app s")
  from disconnectVPN_trace_prefix [OF assms(1), of ex s] d obtain rest where
    rest: "trace s1 =
             trace s @ [[''networksetup'', ''-setsocksfirewallproxystate'', Interface cfg, ''off''],
                        [''pkill'', ''autossh'']] @ rest"
    by auto
  obtain ra s2 where ra: "run ex (autossh_cmd cfg tc) s1 = (ra, s2)"
    by (cases "run ex (autossh_cmd cfg tc) s1")
  have ra': "ra = fst (ex (world s1) (autossh_cmd cfg tc))"
    and s2: "trace s2 = trace s1 @ [autossh_cmd cfg tc]"
    using ra by (auto simp: run_eq)
  have c: "connectVPN ex app commandName s =
             (case err ra of
                Some e \<Rightarrow> (Some (AutosshStartFailed e), s2)
              | None \<Rightarrow>
                  (let (rp, s3) = run ex (proxy_on_cmd cfg) s2
                   in case err rp of
                        Some e \<Rightarrow> (Some (SetProxyFailed e), s3)
                      | None \<Rightarrow> (None, s3)))"
    using assms(1) tc d ra by (simp add: connectVPN_def)
  have tr: "trace (snd (connectVPN ex app commandName s)) =
              trace s1 @ [autossh_cmd cfg tc] @ (if err ra = None then [proxy_on_cmd cfg] else [])"
    unfolding c by (simp add: run_eq s2 split: option.splits)
  have er: "\<forall>e. err ra = Some e \<longrightarrow> fst (connectVPN ex app commandName s) = Some (AutosshStartFailed e)"
    unfolding c by simp
  have s1: "s1 = snd (disconnectVPN ex app s)"
    using d by simp
  show ?thesis
    apply (rule exI [of _ pre], rule exI [of _ tc], rule exI [of _ post])
    apply (rule exI [of _ s1], rule exI [of _ rest])
    using first rest tr er s1 unfolding ra' autossh_cmd_def proxy_on_cmd_def Let_def
    by simp
qed

text \<open>
  A run with no default value in the configuration: of the two profiles called \<open>lab\<close>
  the first is taken, and every number and name in the two commands is the configured
  one.
\<close>

theorem connectVPN_order_witness:
  "config lab_app = Some lab_cfg
   \<and> ''lab'' \<in> Name ` set (Commands lab_cfg)
   \<and> trace (snd (connectVPN scripted lab_app ''lab'' (boot [ok [], exit_with 1, ok [], ok []]))) =
       [[''networksetup'', ''-setsocksfirewallproxystate'', ''Ethernet'', ''off''],
        [''pkill'', ''autossh''],
        [''/usr/local/bin/autossh'', ''-f'', ''-M'', ''0'',
         ''-o'', ''ServerAliveInterval 30'', ''-o'', ''ServerAliveCountMax 5'',
         ''-D'', ''localhost:8080'', ''-N'', ''lab-1.example.org''],
        [''networksetup'', ''-setsocksfirewallproxy'', ''Ethernet'', ''127.0.0.1'', ''8080'']]"
proof -
  let ?s = "boot [ok [], exit_with 1, ok [], ok []]"
  let ?lab1 = "\<lparr>Name = ''lab'', Description = ''Lab, first'', Server = ''lab-1.example.org''\<rparr>"
  have d: "snd (disconnectVPN scripted lab_app ?s) =
             \<lparr>world = [ok [], ok []],
              trace = [[''networksetup'', ''-setsocksfirewallproxystate'', ''Ethernet'', ''off''],
                       [''pkill'', ''autossh'']],
              logs = []\<rparr>"
    by code_simp
  have f: "find_command ''lab'' (Commands lab_cfg) = Some ?lab1"
    by (simp add: lab_cfg_def)
  have n: "fmt_d (ServerAliveInterval (ServerOptions lab_cfg)) = ''30''"
    "fmt_d (ServerAliveCountMax (ServerOptions lab_cfg)) = ''5''"
    "fmt_d (LocalPort lab_cfg) = ''8080''"
    by (simp_all add: lab_cfg_def fmt_d_def nat_dec.simps digit_char_def)
  have c: "AutoSSHPath lab_cfg = ''/usr/local/bin/autossh''" "Interface lab_cfg = ''Ethernet''"
    by (simp_all add: lab_cfg_def)
  from connectVPN_order [OF lab_cfg_app lab_has, of scripted ?s]
  obtain pre tc post s1 rest where all:
    "Commands lab_cfg = pre @ tc # post
         \<and> ''lab'' \<notin> Name ` set pre
         \<and> Name tc = ''lab''
         \<and> s1 = snd (disconnectVPN scripted lab_app ?s)
         \<and> trace s1 =
             trace ?s @ [[''networksetup'', ''-setsocksfirewallproxystate'', Interface lab_cfg, ''off''],
                        [''pkill'', ''autossh'']] @ rest
         \<and> (let spawn =
                   [AutoSSHPath lab_cfg, ''-f'', ''-M'', ''0'',
                    ''-o'', ''ServerAliveInterval '' @ fmt_d (ServerAliveInterval (ServerOptions lab_cfg)),
                    ''-o'', ''ServerAliveCountMax '' @ fmt_d (ServerAliveCountMax (ServerOptions lab_cfg)),
                    ''-D'', ''localhost:'' @ fmt_d (LocalPort lab_cfg),
                    ''-N'', Server tc];
                 enable =
                   [''networksetup'', ''-setsocksfirewallproxy'', Interface lab_cfg, ''127.0.0.1'',
                    fmt_d (LocalPort lab_cfg)]
             in trace (snd (connectVPN scripted lab_app ''lab'' ?s)) =
                  trace s1 @ [spawn] @
                  (if err (fst (scripted (world s1) spawn)) = None then [enable] else [])
              \<and> (\<forall>e. err (fst (scripted (world s1) spawn)) = Some e
                    \<longrightarrow> fst (connectVPN scripted lab_app ''lab'' ?s) = Some (AutosshStartFailed e)))"
    by (elim exE) (rule that)
  note dec1 = all [THEN conjunct1]
  note dec2 = all [THEN conjunct2, THEN conjunct1]
  note dec3 = all [THEN conjunct2, THEN conjunct2, THEN conjunct1]
  note s1 = all [THEN conjunct2, THEN conjunct2, THEN conjunct2, THEN conjunct1]
  note tr = all [THEN conjunct2, THEN conjunct2, THEN conjunct2, THEN conjunct2, THEN conjunct2,
                 unfolded Let_def, THEN conjunct1]
  from find_command_first_conv [OF dec1 dec2 dec3] f have tc: "tc = ?lab1"
    by simp
  have w: "world s1 = [ok [], ok []]"
    and t: "trace s1 = [[''networksetup'', ''-setsocksfirewallproxystate'', ''Ethernet'', ''off''],
                       [''pkill'', ''autossh'']]"
    unfolding s1 d by simp_all
  have sv: "Server tc = ''lab-1.example.org''"
    unfolding tc by simp
  have sp: "err (fst (scripted [ok [], ok []] cmd)) = None" for cmd
    by (simp add: ok_def)
  have "trace (snd (connectVPN scripted lab_app ''lab'' ?s)) =
       [[''networksetup'', ''-setsocksfirewallproxystate'', ''Ethernet'', ''off''],
        [''pkill'', ''autossh''],
        [''/usr/local/bin/autossh'', ''-f'', ''-M'', ''0'',
         ''-o'', ''ServerAliveInterval 30'', ''-o'', ''ServerAliveCountMax 5'',
         ''-D'', ''localhost:8080'', ''-N'', ''lab-1.example.org''],
        [''networksetup'', ''-setsocksfirewallproxy'', ''Ethernet'', ''127.0.0.1'', ''8080'']]"
    using tr unfolding w t n c sv sp by simp
  with lab_cfg_app lab_has show ?thesis
    by (intro conjI)
qed

text \<open>
  The scenario of the specification: after the two commands of the disconnect, autossh
  is spawned for \<open>office.example.com\<close> on \<open>localhost:1234\<close> and the proxy is enabled
  for Wi-Fi at 127.0.0.1:1234.
\<close>

lemma connectVPN_office_scenario:
  "connectVPN scripted office_app ''office'' (boot [ok [], exit_with 1, ok [], ok []]) =
     (None,
      \<lparr>world = [],
       trace =
         [[''networksetup'', ''-setsocksfirewallproxystate'', ''Wi-Fi'', ''off''],
          [''pkill'', ''autossh''],
          [''/opt/homebrew/bin/autossh'', ''-f'', ''-M'', ''0'',
           ''-o'', ''ServerAliveInterval 10'', ''-o'', ''ServerAliveCountMax 3'',
           ''-D'', ''localhost:1234'', ''-N'', ''office.example.com''],
          [''networksetup'', ''-setsocksfirewallproxy'', ''Wi-Fi'', ''127.0.0.1'', ''1234'']],
       logs = []\<rparr>)"
  by code_simp

text \<open>
  C1 as stated fails when the spawn fails: the profile exists, the disconnect and the
  spawn are run, and the command that enables the proxy is never issued.
\<close>

theorem connectVPN_spawn_failure_counterexample:
  "find_command ''office'' (Commands office_cfg) \<noteq> None
   \<and> proxy_on_cmd office_cfg \<notin>
       set (trace (snd (connectVPN scripted office_app ''office'' (boot [ok [], exit_with 1, not_started]))))"
  by code_simp

text \<open>
  C2, as amended. With a configuration present, disconnectVPN never returns an error,
  and what went wrong is in the log, in this order: a failure to disable the SOCKS proxy;
  then, unless pkill ended with exit status 1, a failure of pkill (one message for an
  exit status, another for any other error), and, when autossh is still found, the
  notice of the escalation and a failure of the SIGKILL. Nothing else is logged.
\<close>

theorem disconnectVPN_returns_nil:
  assumes "config app = Some cfg"
  shows "fst (disconnectVPN ex app s) = None
    \<and> (let rp = fst (ex (world s) (proxy_off_cmd cfg));
            w1 = snd (ex (world s) (proxy_off_cmd cfg));
            rk = fst (ex w1 pkill_cmd);
            w2 = snd (ex w1 pkill_cmd);
            rc = fst (ex w2 pgrep_cmd);
            w3 = snd (ex w2 pgrep_cmd);
            r9 = fst (ex w3 pkill9_cmd)
        in logs (snd (disconnectVPN ex app s)) =
             logs s
             @ (case err rp of None \<Rightarrow> [] | Some e \<Rightarrow> [LogProxyDisableFailed e])
             @ (if err rk = Some (ExitError 1) then []
                else (case err rk of
                        None \<Rightarrow> []
                      | Some (ExitError st) \<Rightarrow> [LogPkillReturned (ExitError st)]
                      | Some OtherError \<Rightarrow> [LogPkillFailed OtherError])
                     @ (if err rc = None
                        then LogStillPresent #
                             (case err r9 of None \<Rightarrow> [] | Some e \<Rightarrow> [LogSigkillFailed e])
                        else [])))"
proof -
  from disconnectVPN_after_pkill [OF assms, of ex s] obtain s3 where
    w: "world s3 = snd (ex (snd (ex (world s) (proxy_off_cmd cfg))) pkill_cmd)"
    and l: "logs s3 = logs s @ (case err (fst (ex (world s) (proxy_off_cmd cfg))) of
                           None \<Rightarrow> [] | Some e \<Rightarrow> [LogProxyDisableFailed e])"
    and u: "disconnectVPN ex app s =
      (case err (fst (ex (snd (ex (world s) (proxy_off_cmd cfg))) pkill_cmd)) of
         None \<Rightarrow> sigkill_if_present ex s3
       | Some (ExitError st) \<Rightarrow>
           (if st = 1 then (None, s3)
            else sigkill_if_present ex (log_printf (LogPkillReturned (ExitError st)) s3))
       | Some OtherError \<Rightarrow> sigkill_if_present ex (log_printf (LogPkillFailed OtherError) s3))"
    by blast
  have res: "fst (disconnectVPN ex app s) = None"
    unfolding u
    by (simp add: sigkill_if_present_result split: option.splits run_error.splits)
  have lg: "logs (snd (disconnectVPN ex app s)) =
             logs s3
             @ (if err (fst (ex (snd (ex (world s) (proxy_off_cmd cfg))) pkill_cmd)) = Some (ExitError 1) then []
                else (case err (fst (ex (snd (ex (world s) (proxy_off_cmd cfg))) pkill_cmd)) of
                        None \<Rightarrow> []
                      | Some (ExitError st) \<Rightarrow> [LogPkillReturned (ExitError st)]
                      | Some OtherError \<Rightarrow> [LogPkillFailed OtherError])
                     @ (if err (fst (ex (world s3) pgrep_cmd)) = None
                        then LogStillPresent #
                             (case err (fst (ex (snd (ex (world s3) pgrep_cmd)) pkill9_cmd)) of
                                None \<Rightarrow> [] | Some e \<Rightarrow> [LogSigkillFailed e])
                        else []))"
  proof (cases "err (fst (ex (snd (ex (world s) (proxy_off_cmd cfg))) pkill_cmd))")
    case None
    then show ?thesis
      unfolding u by (simp add: sigkill_if_present_logs_eq)
  next
    case (Some e)
    show ?thesis
    proof (cases e)
      case (ExitError st)
      with Some show ?thesis
        unfolding u by (simp add: sigkill_if_present_logs_eq log_printf_simps)
    next
      case OtherError
      with Some show ?thesis
        unfolding u by (simp add: sigkill_if_present_logs_eq log_printf_simps)
    qed
  qed
  show ?thesis
    using res lg unfolding l w Let_def by simp
qed

text \<open>
  Two runs. In the first the proxy cannot be disabled, pkill ends with status 2, autossh
  is still found and the SIGKILL fails with status 1; in the second pkill cannot be
  started and no autossh is found after it.
\<close>

theorem disconnectVPN_returns_nil_witness:
  "config office_app = Some office_cfg
   \<and> fst (disconnectVPN scripted office_app (boot [exit_with 4, exit_with 2, ok [], exit_with 1])) = None
   \<and> logs (snd (disconnectVPN scripted office_app (boot [exit_with 4, exit_with 2, ok [], exit_with 1]))) =
       [LogProxyDisableFailed (ExitError 4), LogPkillReturned (ExitError 2), LogStillPresent,
        LogSigkillFailed (ExitError 1)]
   \<and> logs (snd (disconnectVPN scripted office_app (boot [ok [], not_started, exit_with 1]))) =
       [LogPkillFailed OtherError]"
  using disconnectVPN_returns_nil [OF office_cfg_app, of scripted "boot [exit_with 4, exit_with 2, ok [], exit_with 1]"]
    disconnectVPN_returns_nil [OF office_cfg_app, of scripted "boot [ok [], not_started, exit_with 1]"]
    office_cfg_app
  by (simp add: boot_def exit_with_def ok_def not_started_def Let_def)

text \<open>
  C2 as stated fails: here \<^verbatim>\<open>networksetup\<close> exits with status 4, so disabling the
  proxy fails, and disconnectVPN still returns nil.
\<close>

theorem disconnectVPN_proxy_failure_counterexample:
  "err (fst (scripted [exit_with 4, ok [], exit_with 1] (proxy_off_cmd office_cfg))) \<noteq> None
   \<and> fst (disconnectVPN scripted office_app (boot [exit_with 4, ok [], exit_with 1])) = None"
  by code_simp

text \<open>
  C3. For a configuration and a name that none of its profiles has, connectVPN returns
  the configuration error and leaves the machine as it was: no command is issued (no
  disconnect, no spawn, no proxy change) and nothing is logged.
\<close>

theorem connectVPN_unknown_name:
  assumes "config app = Some cfg" and "commandName \<notin> Name ` set (Commands cfg)"
  shows "connectVPN ex app commandName s = (Some (CommandNotFound commandName), s)"
proof -
  have "find_command commandName (Commands cfg) = None"
    using assms(2) by (simp add: find_command_None_iff)
  with assms(1) show ?thesis
    by (simp add: connectVPN_def)
qed

theorem connectVPN_unknown_name_witness:
  "config office_app = Some office_cfg
   \<and> ''home'' \<notin> Name ` set (Commands office_cfg)
   \<and> connectVPN scripted office_app ''home'' (boot [ok [], ok []]) =
       (Some (CommandNotFound ''home''), boot [ok [], ok []])"
proof -
  have h: "''home'' \<notin> Name ` set (Commands office_cfg)"
    by (simp add: office_cfg_def)
  from connectVPN_unknown_name [OF office_cfg_app h] office_cfg_app h
  show ?thesis by blast
qed

text \<open>
  C4. When \<^verbatim>\<open>pkill autossh\<close> ends with exit status 1 (no process matched),
  disconnectVPN returns nil at once: the only commands run are the proxy switch-off and
  the pkill, and nothing about the kill is logged.
\<close>

theorem disconnectVPN_no_process:
  assumes "config app = Some cfg"
    and "err (fst (ex (snd (ex (world s) (proxy_off_cmd cfg))) pkill_cmd)) = Some (ExitError 1)"
  shows "fst (disconnectVPN ex app s) = None
       \<and> trace (snd (disconnectVPN ex app s)) = trace s @ [proxy_off_cmd cfg, pkill_cmd]
       \<and> logs (snd (disconnectVPN ex app s)) =
           logs s @ (case err (fst (ex (world s) (proxy_off_cmd cfg))) of
                       None \<Rightarrow> [] | Some e \<Rightarrow> [LogProxyDisableFailed e])"
  using assms
  by (simp add: disconnectVPN_def run_eq log_printf_def split: option.splits)

theorem disconnectVPN_no_process_witness:
  "config office_app = Some office_cfg
   \<and> err (fst (scripted (snd (scripted [ok [], exit_with 1] (proxy_off_cmd office_cfg))) pkill_cmd))
       = Some (ExitError 1)
   \<and> fst (disconnectVPN scripted office_app (boot [ok [], exit_with 1])) = None
   \<and> trace (snd (disconnectVPN scripted office_app (boot [ok [], exit_with 1]))) =
       [proxy_off_cmd office_cfg, pkill_cmd]
   \<and> logs (snd (disconnectVPN scripted office_app (boot [ok [], exit_with 1]))) = []"
proof -
  let ?s = "boot [ok [], exit_with 1]"
  have h: "err (fst (scripted (snd (scripted (world ?s) (proxy_off_cmd office_cfg))) pkill_cmd))
             = Some (ExitError 1)"
    by (simp add: boot_def exit_with_def)
  from disconnectVPN_no_process [of office_app office_cfg scripted ?s, OF office_cfg_app h]
    h office_cfg_app
  show ?thesis by (simp add: boot_def ok_def)
qed

section \<open>The connection probe\<close>

text \<open>
  C5, at a failing input. Both process checks find nothing and \<^verbatim>\<open>lsof\<close> reports one
  listener on port 1234, owned by \<open>python3\<close>, a process whose name has nothing of ssh
  in it; the user running it is called \<open>ssharma\<close>. isVPNConnected looks for \<open>ssh\<close>
  in the whole line, not in the COMMAND column, and answers that the VPN is connected.
\<close>

theorem isVPNConnected_user_name_false_positive:
  "0 < LocalPort office_cfg
   \<and> listener_commands lsof_python = [''python3'']
   \<and> \<not> Contains (ToLower ''python3'') ''ssh''
   \<and> fst (isVPNConnected scripted office_app (boot [exit_with 1, exit_with 1, ok lsof_python])) = True"
  by code_simp

text \<open>
  What the probe does guarantee: with both process checks negative and a listener
  reported, the answer is negative when no line after the header contains \<open>ssh\<close>
  anywhere.
\<close>

lemma isVPNConnected_listener_without_ssh_text:
  assumes "\<not> (err (fst (ex (world s) pgrep_f_cmd)) = None
              \<and> length (TrimSpace (stdout (fst (ex (world s) pgrep_f_cmd)))) > 0)"
    and "err (fst (ex (snd (ex (world s) pgrep_f_cmd)) pgrep_cmd)) \<noteq> None"
    and "config app = Some cfg" and "LocalPort cfg > 0"
    and "fst (ex (snd (ex (snd (ex (world s) pgrep_f_cmd)) pgrep_cmd)) (lsof_cmd cfg)) = r3"
    and "\<forall>ln \<in> set (drop 1 (SplitLines (TrimSpace (stdout r3)))). \<not> ssh_line ln"
  shows "fst (isVPNConnected ex app s) = False"
proof -
  have "find ssh_line (drop 1 (SplitLines (TrimSpace (stdout r3)))) = None"
    using assms(6) by (simp add: find_None_iff)
  then show ?thesis
    using assms(1-5)
    by (auto simp: isVPNConnected_def report_disconnected_def run_eq Let_def)
qed

text \<open>
  C10. When the configuration is nil or its local port is not positive, and both process
  checks are negative, isVPNConnected answers false and has run exactly the two
  \<^verbatim>\<open>pgrep\<close> commands: \<^verbatim>\<open>lsof\<close> is not called.
\<close>

theorem isVPNConnected_without_port:
  assumes "\<not> (err (fst (ex (world s) pgrep_f_cmd)) = None
              \<and> length (TrimSpace (stdout (fst (ex (world s) pgrep_f_cmd)))) > 0)"
    and "err (fst (ex (snd (ex (world s) pgrep_f_cmd)) pgrep_cmd)) \<noteq> None"
    and "config app = None \<or> (\<exists>cfg. config app = Some cfg \<and> LocalPort cfg \<le> 0)"
  shows "fst (isVPNConnected ex app s) = False
    \<and> trace (snd (isVPNConnected ex app s)) = trace s @ [pgrep_f_cmd, pgrep_cmd]"
proof -
  have "isVPNConnected ex app s =
          report_disconnected app
            (s\<lparr>world := snd (ex (snd (ex (world s) pgrep_f_cmd)) pgrep_cmd),
               trace := trace s @ [pgrep_f_cmd, pgrep_cmd]\<rparr>)"
    using assms by (auto simp: isVPNConnected_def run_eq)
  then show ?thesis
    by (simp add: report_disconnected_def log_printf_def)
qed

text \<open>Two runs: without a configuration, and with the local port set to \<open>-1\<close>.\<close>

theorem isVPNConnected_without_port_witness:
  "fst (isVPNConnected scripted \<lparr>config = None\<rparr> (boot [exit_with 1, exit_with 1, ok lsof_python])) = False
   \<and> trace (snd (isVPNConnected scripted \<lparr>config = None\<rparr> (boot [exit_with 1, exit_with 1, ok lsof_python])))
       = [pgrep_f_cmd, pgrep_cmd]
   \<and> LocalPort (office_cfg\<lparr>LocalPort := - 1\<rparr>) \<le> 0
   \<and> fst (isVPNConnected scripted \<lparr>config = Some (office_cfg\<lparr>LocalPort := - 1\<rparr>)\<rparr>
            (boot [ok [], exit_with 1, ok lsof_python])) = False
   \<and> trace (snd (isVPNConnected scripted \<lparr>config = Some (office_cfg\<lparr>LocalPort := - 1\<rparr>)\<rparr>
                   (boot [ok [], exit_with 1, ok lsof_python])))
       = [pgrep_f_cmd, pgrep_cmd]"
proof -
  let ?s = "boot [exit_with 1, exit_with 1, ok lsof_python]"
  let ?t = "boot [ok [], exit_with 1, ok lsof_python]"
  have a1: "\<not> (err (fst (scripted (world ?s) pgrep_f_cmd)) = None
              \<and> length (TrimSpace (stdout (fst (scripted (world ?s) pgrep_f_cmd)))) > 0)"
    by (simp add: boot_def exit_with_def)
  have a2: "err (fst (scripted (snd (scripted (world ?s) pgrep_f_cmd)) pgrep_cmd)) \<noteq> None"
    by (simp add: boot_def exit_with_def)
  have b1: "\<not> (err (fst (scripted (world ?t) pgrep_f_cmd)) = None
              \<and> length (TrimSpace (stdout (fst (scripted (world ?t) pgrep_f_cmd)))) > 0)"
    by (simp add: boot_def ok_def TrimSpace_def)
  have b2: "err (fst (scripted (snd (scripted (world ?t) pgrep_f_cmd)) pgrep_cmd)) \<noteq> None"
    by (simp add: boot_def exit_with_def)
  have p: "LocalPort (office_cfg\<lparr>LocalPort := - 1\<rparr>) \<le> 0"
    by simp
  from isVPNConnected_without_port [of scripted ?s "\<lparr>config = None\<rparr>", OF a1 a2]
    isVPNConnected_without_port
      [of scripted ?t "\<lparr>config = Some (office_cfg\<lparr>LocalPort := - 1\<rparr>)\<rparr>", OF b1 b2]
    p
  show ?thesis by (simp add: boot_def)
qed

section \<open>The configuration store\<close>

text \<open>
  C6. When the file is read and parsed, loadConfig returns the parsed configuration with
  each optional field defaulted on its own: a zero keepalive interval becomes 10, a zero
  keepalive count 3, a zero local port 1234, an empty interface \<open>Wi-Fi\<close> (and an empty
  autossh path the Homebrew path); every other value is returned as parsed.
\<close>

theorem loadConfig_defaults:
  assumes "homeDir env = Some home"
    and "files env (filepath_Join home ''.vpn.json'') = Some data"
    and "Unmarshal js data = Some p"
  shows "\<exists>c. loadConfig js env = Inr c
    \<and> ServerAliveInterval (ServerOptions c) =
        (if ServerAliveInterval (ServerOptions p) = 0 then 10 else ServerAliveInterval (ServerOptions p))
    \<and> ServerAliveCountMax (ServerOptions c) =
        (if ServerAliveCountMax (ServerOptions p) = 0 then 3 else ServerAliveCountMax (ServerOptions p))
    \<and> LocalPort c = (if LocalPort p = 0 then 1234 else LocalPort p)
    \<and> Interface c = (if Interface p = [] then ''Wi-Fi'' else Interface p)
    \<and> AutoSSHPath c = (if AutoSSHPath p = [] then ''/opt/homebrew/bin/autossh'' else AutoSSHPath p)
    \<and> Commands c = Commands p"
proof -
  have "loadConfig js env = Inr (set_defaults p)"
    using assms by (simp add: loadConfig_def)
  then show ?thesis
    by (simp add: set_defaults_fields)
qed

text \<open>
  Two files: one with an empty \<^verbatim>\<open>server_options\<close> object and nothing else, and
  one that only sets the port, to 70000: the port is kept and the other fields get their
  defaults.
\<close>

theorem loadConfig_defaults_witness:
  "homeDir (home_env [(vpn_json, empty_options_json)]) = Some ''/Users/me''
   \<and> files (home_env [(vpn_json, empty_options_json)]) (filepath_Join ''/Users/me'' ''.vpn.json'')
       = Some empty_options_json
   \<and> Unmarshal sample_codec empty_options_json = Some zero_cfg
   \<and> (\<exists>c. loadConfig sample_codec (home_env [(vpn_json, empty_options_json)]) = Inr c
        \<and> ServerAliveInterval (ServerOptions c) = 10
        \<and> ServerAliveCountMax (ServerOptions c) = 3
        \<and> LocalPort c = 1234
        \<and> Interface c = ''Wi-Fi'')
   \<and> (\<exists>c. loadConfig sample_codec (home_env [(vpn_json, port_70000_json)]) = Inr c
        \<and> ServerAliveInterval (ServerOptions c) = 10
        \<and> ServerAliveCountMax (ServerOptions c) = 3
        \<and> LocalPort c = 70000
        \<and> Interface c = ''Wi-Fi'')"
proof -
  let ?env = "home_env [(vpn_json, empty_options_json)]"
  let ?env2 = "home_env [(vpn_json, port_70000_json)]"
  have h1: "homeDir ?env = Some ''/Users/me''"
    by (simp add: home_env_simps)
  have h2: "files ?env (filepath_Join ''/Users/me'' ''.vpn.json'') = Some empty_options_json"
    by (simp add: home_env_simps vpn_json_path)
  have g1: "homeDir ?env2 = Some ''/Users/me''"
    by (simp add: home_env_simps)
  have g2: "files ?env2 (filepath_Join ''/Users/me'' ''.vpn.json'') = Some port_70000_json"
    by (simp add: home_env_simps vpn_json_path)
  from loadConfig_defaults [OF h1 h2 sample_codec_empty_options]
  have a: "\<exists>c. loadConfig sample_codec ?env = Inr c
        \<and> ServerAliveInterval (ServerOptions c) = 10
        \<and> ServerAliveCountMax (ServerOptions c) = 3
        \<and> LocalPort c = 1234
        \<and> Interface c = ''Wi-Fi''"
    by (auto simp: zero_cfg_def)
  from loadConfig_defaults [OF g1 g2 sample_codec_port_70000]
  have b: "\<exists>c. loadConfig sample_codec ?env2 = Inr c
        \<and> ServerAliveInterval (ServerOptions c) = 10
        \<and> ServerAliveCountMax (ServerOptions c) = 3
        \<and> LocalPort c = 70000
        \<and> Interface c = ''Wi-Fi''"
    by (auto simp: zero_cfg_def)
  from a b h1 h2 sample_codec_empty_options show ?thesis by blast
qed

text \<open>
  C7, as amended. A configuration returned by loadConfig has a local port other than
  zero: it is 1234 when the parsed port is zero, and the parsed port otherwise, whatever
  its value.
\<close>

theorem loadConfig_port_nonzero:
  assumes "loadConfig js env = Inr c"
  shows "LocalPort c \<noteq> 0
    \<and> (\<exists>home data p. homeDir env = Some home
          \<and> files env (filepath_Join home ''.vpn.json'') = Some data
          \<and> Unmarshal js data = Some p
          \<and> LocalPort c = (if LocalPort p = 0 then 1234 else LocalPort p))"
proof -
  from assms obtain home data p where
    h: "homeDir env = Some home" "files env (filepath_Join home ''.vpn.json'') = Some data"
       "Unmarshal js data = Some p" "c = set_defaults p"
    by (auto simp: loadConfig_Inr_iff)
  have "LocalPort c = (if LocalPort p = 0 then 1234 else LocalPort p)"
    using h(4) by (simp add: set_defaults_fields)
  with h show ?thesis by auto
qed

theorem loadConfig_port_nonzero_witness:
  "loadConfig sample_codec (home_env [(vpn_json, empty_options_json)]) = Inr (set_defaults zero_cfg)
   \<and> LocalPort (set_defaults zero_cfg) \<noteq> 0"
proof -
  have l: "loadConfig sample_codec (home_env [(vpn_json, empty_options_json)]) = Inr (set_defaults zero_cfg)"
    by (simp add: loadConfig_def home_env_simps vpn_json_path sample_codec_empty_options)
  from loadConfig_port_nonzero [OF l] l show ?thesis by blast
qed

text \<open>
  C7 as stated fails: a file that sets \<^verbatim>\<open>local_port\<close> to 70000 is loaded without
  complaint and the port stays 70000, outside 1-65535.
\<close>

theorem loadConfig_port_70000_counterexample:
  "(case loadConfig sample_codec (home_env [(vpn_json, port_70000_json)]) of
      Inl e \<Rightarrow> False
    | Inr c \<Rightarrow> LocalPort c = 70000 \<and> \<not> (1 \<le> LocalPort c \<and> LocalPort c \<le> 65535))"
  by code_simp

text \<open>
  What holds for any JSON library: after a successful createDummyConfig at the
  configuration path, loadConfig returns whatever the library decodes from the text it
  produced for the template, with the defaults applied.
\<close>

lemma createDummyConfig_then_load:
  assumes "Marshal js dummyConfig = Some data"
    and "Unmarshal js data = Some p"
    and "homeDir env = Some home"
    and "createDummyConfig js (filepath_Join home ''.vpn.json'') (env, lg) = (None, env', lg')"
  shows "loadConfig js env' = Inr (set_defaults p)"
proof -
  let ?p = "filepath_Join home ''.vpn.json''"
  have env': "env' = env\<lparr>files := (files env)(?p \<mapsto> data)\<rparr>"
    using assms(1,4) by (simp add: createDummyConfig_def split: if_splits)
  show ?thesis
    using assms(2,3) by (simp add: env' loadConfig_def)
qed

text \<open>
  C8. With \<^verbatim>\<open>encoding/json\<close> as modelled above, writing the template to the
  configuration path and loading again gives the template itself: a configuration with
  exactly one profile, named \<open>example\<close>, with server \<open>your-server-name-or-ip\<close>.
\<close>

theorem createDummyConfig_roundtrip:
  assumes "homeDir env = Some home"
    and "createDummyConfig go_json (filepath_Join home ''.vpn.json'') (env, lg) = (None, env', lg')"
  shows "\<exists>c. loadConfig go_json env' = Inr c
    \<and> Commands c = [\<lparr>Name = ''example'', Description = ''Example VPN Server'',
                      Server = ''your-server-name-or-ip''\<rparr>]
    \<and> c = dummyConfig"
proof -
  have m: "Marshal go_json dummyConfig = Some dummy_json"
    by (simp add: go_json_def MarshalIndent_dummyConfig)
  have u: "Unmarshal go_json dummy_json = Some dummyConfig"
    by (simp add: go_json_def json_Unmarshal_dummy_json)
  have "loadConfig go_json env' = Inr (set_defaults dummyConfig)"
    using createDummyConfig_then_load [OF m u assms] .
  moreover have "set_defaults dummyConfig = dummyConfig"
    by (simp add: set_defaults_def dummyConfig_def)
  ultimately show ?thesis
    by (simp add: dummyConfig_def)
qed

text \<open>On a machine with no configuration file yet.\<close>

theorem createDummyConfig_roundtrip_witness:
  "homeDir (home_env []) = Some ''/Users/me''
   \<and> files (home_env []) vpn_json = None
   \<and> createDummyConfig go_json (filepath_Join ''/Users/me'' ''.vpn.json'') (home_env [], []) =
       (None, (home_env [])\<lparr>files := (files (home_env []))(vpn_json \<mapsto> dummy_json)\<rparr>,
        [LogCreatedDummy vpn_json])
   \<and> (\<exists>c. loadConfig go_json ((home_env [])\<lparr>files := (files (home_env []))(vpn_json \<mapsto> dummy_json)\<rparr>) = Inr c
        \<and> Commands c = [\<lparr>Name = ''example'', Description = ''Example VPN Server'',
                          Server = ''your-server-name-or-ip''\<rparr>])"
proof -
  let ?env' = "(home_env [])\<lparr>files := (files (home_env []))(vpn_json \<mapsto> dummy_json)\<rparr>"
  have h0: "files (home_env []) vpn_json = None"
    by (simp add: home_env_simps)
  have h3: "homeDir (home_env []) = Some ''/Users/me''"
    by (simp add: home_env_simps)
  have h4: "createDummyConfig go_json (filepath_Join ''/Users/me'' ''.vpn.json'') (home_env [], []) =
              (None, ?env', [LogCreatedDummy vpn_json])"
    by (simp add: createDummyConfig_def go_json_def MarshalIndent_dummyConfig home_env_simps vpn_json_path)
  from createDummyConfig_roundtrip [OF h3 h4]
  have "\<exists>c. loadConfig go_json ?env' = Inr c
        \<and> Commands c = [\<lparr>Name = ''example'', Description = ''Example VPN Server'',
                          Server = ''your-server-name-or-ip''\<rparr>]"
    by blast
  with h0 h3 h4 show ?thesis
    by (intro conjI)
qed

text \<open>
  C9. When loadConfig fails (the user lookup fails, the file cannot be read or it does
  not parse), reloadConfiguration leaves the application, and with it the active
  configuration, as it was.
\<close>

theorem reloadConfiguration_failure_keeps_config:
  assumes "loadConfig js env = Inl e"
  shows "fst (reloadConfiguration js env (app, lg)) = app
       \<and> config (fst (reloadConfiguration js env (app, lg))) = config app"
  using assms by (simp add: reloadConfiguration_def)

text \<open>An unreadable file and an unparseable one.\<close>

theorem reloadConfiguration_failure_keeps_config_witness:
  "loadConfig sample_codec (home_env []) = Inl (ReadConfigFailed vpn_json)
   \<and> config (fst (reloadConfiguration sample_codec (home_env []) (office_app, []))) = Some office_cfg
   \<and> loadConfig sample_codec (home_env [(vpn_json, ''not json'')]) = Inl ParseConfigFailed
   \<and> config (fst (reloadConfiguration sample_codec (home_env [(vpn_json, ''not json'')]) (office_app, [])))
       = Some office_cfg"
proof -
  have l1: "loadConfig sample_codec (home_env []) = Inl (ReadConfigFailed vpn_json)"
    by (simp add: loadConfig_def home_env_simps vpn_json_path)
  have l2: "loadConfig sample_codec (home_env [(vpn_json, ''not json'')]) = Inl ParseConfigFailed"
    by (simp add: loadConfig_def home_env_simps vpn_json_path sample_codec_garbage)
  from reloadConfiguration_failure_keeps_config [OF l1, of office_app "[]"]
    reloadConfiguration_failure_keeps_config [OF l2, of office_app "[]"]
    l1 l2 office_cfg_app
  show ?thesis by simp
qed

end
